theory Spec2Isabelle
  imports Main "HOL-Library.Log_Nat" "HOL-Library.Sublist"
begin

section \<open>Python values used by the analyzer\<close>

subsection \<open>Floats\<close>

text \<open>
  A Python \<^verbatim>\<open>float\<close> is an IEEE 754 binary64 number. It is modelled by the rational it
  denotes; every arithmetic operation computes the exact result and rounds it to the
  nearest number with a 53-bit significand, ties to even (\<open>rnd\<close>). The exponent is left
  unbounded: infinities, NaN and subnormals are not modelled, and no quantity of the
  program comes near those ranges.
\<close>

type_synonym pyfloat = rat

definition round_half_even :: "rat \<Rightarrow> int" where
  "round_half_even q =
     (let f = \<lfloor>q\<rfloor>; r = q - of_int f
      in if r < 1 / 2 then f else if 1 / 2 < r then f + 1 else if even f then f else f + 1)"

text \<open>\<open>ilog2 x\<close> is the binary exponent of a positive \<open>x\<close>: \<open>2 powi ilog2 x \<le> x < 2 powi (ilog2 x + 1)\<close>.\<close>

definition ilog2 :: "rat \<Rightarrow> int" where
  "ilog2 x = (if 1 \<le> x then bitlen \<lfloor>x\<rfloor> - 1 else - bitlen (\<lceil>1 / x\<rceil> - 1))"

definition rnd :: "rat \<Rightarrow> pyfloat" where
  "rnd x =
     (if x = 0 then 0
      else let e = ilog2 \<bar>x\<bar> - 52
           in of_int (round_half_even (x * 2 powi (- e))) * 2 powi e)"

text \<open>A decimal literal such as \<^verbatim>\<open>0.15\<close> is the double nearest to it.\<close>

definition float_lit :: "rat \<Rightarrow> pyfloat" where
  "float_lit q = rnd q"

definition fadd :: "pyfloat \<Rightarrow> pyfloat \<Rightarrow> pyfloat" where
  "fadd a b = rnd (a + b)"

definition fsub :: "pyfloat \<Rightarrow> pyfloat \<Rightarrow> pyfloat" where
  "fsub a b = rnd (a - b)"

definition fmul :: "pyfloat \<Rightarrow> pyfloat \<Rightarrow> pyfloat" where
  "fmul a b = rnd (a * b)"

text \<open>
  True division \<^verbatim>\<open>a / b\<close>, of two floats or of two ints (Python rounds the exact
  quotient of two ints correctly). Every division of the program has a constant divisor
  or is guarded against an empty list, and the guard is part of the model.
\<close>

definition fdiv :: "rat \<Rightarrow> rat \<Rightarrow> pyfloat" where
  "fdiv a b = rnd (a / b)"

text \<open>\<^verbatim>\<open>int(x)\<close> truncates toward zero.\<close>

definition py_int :: "pyfloat \<Rightarrow> int" where
  "py_int x = (if 0 \<le> x then \<lfloor>x\<rfloor> else \<lceil>x\<rceil>)"

text \<open>\<^verbatim>\<open>max(0, x)\<close> keeps its first argument unless the second is greater.\<close>

definition max0 :: "pyfloat \<Rightarrow> pyfloat" where
  "max0 x = (if 0 < x then x else 0)"

subsection \<open>Strings\<close>

text \<open>
  Strings are lists of bytes (UTF-8). \<^verbatim>\<open>str.lower\<close> is modelled on the ASCII letters;
  \<^verbatim>\<open>k in s\<close> on strings is \<^const>\<open>sublist\<close>, \<^verbatim>\<open>s.startswith(p)\<close> is \<^const>\<open>prefix\<close> and
  \<^verbatim>\<open>s.endswith(p)\<close> is \<^const>\<open>suffix\<close>.
\<close>

definition lower_char :: "char \<Rightarrow> char" where
  "lower_char c =
     (let n = (of_char c :: nat) in if 65 \<le> n \<and> n \<le> 90 then char_of (n + 32) else c)"

definition lower :: "string \<Rightarrow> string" where
  "lower s = map lower_char s"

fun join :: "string \<Rightarrow> string list \<Rightarrow> string" where
  "join sep [] = []"
| "join sep [x] = x"
| "join sep (x # y # ys) = x @ sep @ join sep (y # ys)"

datatype py_error = AttributeError | IsADirectoryError | SyntaxError | ImportError | TypeError

subsection \<open>The cloned working tree and \<^verbatim>\<open>os.walk\<close>\<close>

text \<open>
  A directory is the list of its entries in the order the operating system lists them
  (\<^verbatim>\<open>os.listdir\<close>, \<^verbatim>\<open>os.scandir\<close>). A file carries its name and the text that
  \<^verbatim>\<open>open(...).read()\<close> returns for it.
\<close>

datatype entry = File string string | Folder string "entry list"

fun entry_name :: "entry \<Rightarrow> string" where
  "entry_name (File n c) = n"
| "entry_name (Folder n es) = n"

fun dirnames :: "entry list \<Rightarrow> string list" where
  "dirnames [] = []"
| "dirnames (File n c # es) = dirnames es"
| "dirnames (Folder n sub # es) = n # dirnames es"

fun filelist :: "entry list \<Rightarrow> (string \<times> string) list" where
  "filelist [] = []"
| "filelist (File n c # es) = (n, c) # filelist es"
| "filelist (Folder n sub # es) = filelist es"

definition path_join :: "string \<Rightarrow> string \<Rightarrow> string" where
  "path_join rt n = rt @ ''/'' @ n"

text \<open>
  \<^verbatim>\<open>os.walk(path)\<close>, top-down: the triple of a directory (its path, the names of its
  sub-directories, its files), then the walks of the sub-directories in listing order.
  The third component pairs each file name with the content of that file.
\<close>

type_synonym walk_item = "string \<times> string list \<times> (string \<times> string) list"

fun walk :: "string \<Rightarrow> entry list \<Rightarrow> walk_item list"
  and walk_subs :: "string \<Rightarrow> entry list \<Rightarrow> walk_item list" where
  "walk rt es = (rt, dirnames es, filelist es) # walk_subs rt es"
| "walk_subs rt [] = []"
| "walk_subs rt (File n c # es) = walk_subs rt es"
| "walk_subs rt (Folder n sub # es) = walk (path_join rt n) sub @ walk_subs rt es"

section \<open>The repository scorer (\<^verbatim>\<open>analyzer.py\<close>)\<close>

text \<open>
  The methods of \<^verbatim>\<open>GitSightAnalyzer\<close> follow, under their names without the leading
  underscore. What the methods take from outside is passed in: the cloned tree, the
  optional README reviewer \<^verbatim>\<open>self.llm\<close> and the \<^verbatim>\<open>radon\<close> function \<^verbatim>\<open>cc_visit\<close>.
\<close>

record breakdown =
  code_structure :: int
  testing_ci :: int
  readme :: int
  project_value :: int
  deployability :: int
  complexity :: int
  security :: int

text \<open>The attributes of a PyGithub repository object that \<^verbatim>\<open>analyze_repo\<close> reads.\<close>

record gh_repo =
  name :: string
  html_url :: string
  clone_url :: string
  gh_language :: "string option"
  stargazers_count :: nat
  forks_count :: nat
  gh_description :: "string option"

record analysis =
  repo_name :: string
  repo_url :: string
  language :: "string option"
  stars :: nat
  forks :: nat
  description :: "string option"
  composite_score :: int
  rating :: string
  score_breakdown :: breakdown
  strengths :: "string list"
  weaknesses :: "string list"
  critical_flags :: "string list"
  improvement_suggestions :: "string list"

text \<open>A notes dictionary: its \<^verbatim>\<open>"strengths"\<close> and \<^verbatim>\<open>"weaknesses"\<close>; \<open>None\<close> is the empty dictionary.\<close>

type_synonym note_dict = "(string list \<times> string list) option"

subsection \<open>\<^verbatim>\<open>_analyze_structure\<close>\<close>

definition src_dirs :: "string list" where
  "src_dirs = [''src'', ''lib'', ''app'', ''core'']"

definition file_count_of :: "walk_item list \<Rightarrow> int" where
  "file_count_of items = sum_list (map (\<lambda>(r, d, files). int (length files)) items)"

definition analyze_structure :: "string \<Rightarrow> entry list \<Rightarrow> string option \<Rightarrow> int \<times> note_dict" where
  "analyze_structure path es lang =
     (let score = 50;
          found_dirs = filter (\<lambda>d. d \<in> set (map entry_name es)) src_dirs;
          (score, st) =
            (if found_dirs \<noteq> []
             then (score + 20, [''Structured project layout ('' @ join '', '' found_dirs @ '')''])
             else (score, []));
          file_count = file_count_of (walk path es);
          (score, wk) =
            (if file_count < 3 then (score - 20, [''Very small codebase (skeleton?)''])
             else if file_count > 50 then (score + 10, [])
             else (score, []))
      in (min 100 (max 0 score), Some (st, wk)))"

subsection \<open>\<^verbatim>\<open>_analyze_readme\<close>\<close>

text \<open>
  The reviewer's answer is parsed JSON. \<open>None\<close> stands for every answer the method skips
  (a failed call, a value that is not a dictionary, an empty dictionary). The
  \<^verbatim>\<open>"score"\<close> entry may be absent, a number, or anything else; adding anything else to
  the heuristic score raises, and the method falls back to the heuristic.
\<close>

datatype json_score = Number rat | NotNumber

record llm_analysis =
  la_score :: "json_score option"
  la_strengths :: "string list"
  la_weaknesses :: "string list"

type_synonym llm = "string \<Rightarrow> llm_analysis option"

fun find_readme :: "entry list \<Rightarrow> entry option" where
  "find_readme [] = None"
| "find_readme (e # es) =
     (if prefix ''readme'' (lower (entry_name e)) then Some e else find_readme es)"

definition readme_heuristic :: "string \<Rightarrow> int" where
  "readme_heuristic content =
     30 + (if length content > 500 then 20 else 0)
        + (if sublist ''install'' content then 10 else 0)
        + (if sublist ''usage'' content then 10 else 0)
        + (if sublist ''contributing'' content then 10 else 0)
        + (if sublist ''license'' content then 10 else 0)
        + (if sublist ''##'' content then 10 else 0)"

definition analyze_readme :: "llm option \<Rightarrow> entry list \<Rightarrow> py_error + int \<times> note_dict" where
  "analyze_readme llm es =
     (case find_readme es of
        None \<Rightarrow> Inr (min 100 0, None)
      | Some (Folder n sub) \<Rightarrow> Inl IsADirectoryError
      | Some (File n c) \<Rightarrow>
          (let content = lower c; score = readme_heuristic content
           in case llm of
                None \<Rightarrow> Inr (min 100 score, None)
              | Some analyze \<Rightarrow>
                  (case analyze content of
                     None \<Rightarrow> Inr (min 100 score, None)
                   | Some la \<Rightarrow>
                       (case (case la_score la of None \<Rightarrow> Number 0 | Some v \<Rightarrow> v) of
                          NotNumber \<Rightarrow> Inr (min 100 score, None)
                        | Number llm_score \<Rightarrow>
                            Inr (min 100 (py_int (fdiv (fadd (of_int score) llm_score) 2)),
                                 Some (la_strengths la, la_weaknesses la))))))"

subsection \<open>\<^verbatim>\<open>_analyze_testing\<close>\<close>

definition test_dirs :: "string list" where
  "test_dirs = [''tests'', ''test'', ''__tests__'', ''spec'']"

definition config_files :: "string list" where
  "config_files = [''.travis.yml'', ''.circleci'', ''Jenkinsfile'', ''.github/workflows'',
     ''pytest.ini'', ''jest.config.js'']"

definition has_test_dir :: "string list \<Rightarrow> bool" where
  "has_test_dir dirs = list_ex (\<lambda>d. d \<in> set test_dirs) dirs"

definition has_test_file :: "(string \<times> string) list \<Rightarrow> bool" where
  "has_test_file files = list_ex (\<lambda>f. sublist ''test'' (lower (fst f))) files"

text \<open>The first loop: the score it leaves, from the score it starts with.\<close>

fun test_scan :: "int \<Rightarrow> walk_item list \<Rightarrow> int" where
  "test_scan score [] = score"
| "test_scan score ((rt, dirs, files) # rest) =
     (if has_test_dir dirs then score + 40
      else if has_test_file files then score + 20
      else test_scan score rest)"

text \<open>The second loop returns from the method at the first file that counts as a CI marker.\<close>

definition has_ci_file :: "string \<Rightarrow> (string \<times> string) list \<Rightarrow> bool" where
  "has_ci_file rt files = list_ex (\<lambda>f. fst f \<in> set config_files \<or> sublist ''.github'' rt) files"

fun ci_scan :: "walk_item list \<Rightarrow> bool" where
  "ci_scan [] = False"
| "ci_scan ((rt, dirs, files) # rest) = (if has_ci_file rt files then True else ci_scan rest)"

definition analyze_testing :: "string \<Rightarrow> entry list \<Rightarrow> int \<times> note_dict" where
  "analyze_testing path es =
     (let score = test_scan 0 (walk path es)
      in if ci_scan (walk path es) then (min 100 (score + 40), None)
         else (min 100 score, None))"

subsection \<open>\<^verbatim>\<open>_analyze_complexity_python\<close>\<close>

text \<open>
  \<^verbatim>\<open>cc_visit(content)\<close> of \<^verbatim>\<open>radon\<close> returns the blocks it finds, of which the method
  reads the \<^verbatim>\<open>complexity\<close>, or raises on text it cannot parse. \<open>None\<close> for the function
  itself stands for a failed import. Every exception ends the method with 50.
\<close>

type_synonym radon = "string \<Rightarrow> py_error + int list"

fun cc_files :: "radon \<Rightarrow> (string \<times> string) list \<Rightarrow> int \<times> int \<Rightarrow> py_error + int \<times> int" where
  "cc_files cc_visit [] acc = Inr acc"
| "cc_files cc_visit ((file, content) # files) (file_count, total_cc) =
     (if suffix ''.py'' file
      then (case cc_visit content of
              Inl e \<Rightarrow> Inl e
            | Inr results \<Rightarrow>
                cc_files cc_visit files
                  (file_count + int (length results), total_cc + sum_list results))
      else cc_files cc_visit files (file_count, total_cc))"

fun cc_walk :: "radon \<Rightarrow> walk_item list \<Rightarrow> int \<times> int \<Rightarrow> py_error + int \<times> int" where
  "cc_walk cc_visit [] acc = Inr acc"
| "cc_walk cc_visit ((rt, dirs, files) # rest) acc =
     (case cc_files cc_visit files acc of
        Inl e \<Rightarrow> Inl e
      | Inr acc' \<Rightarrow> cc_walk cc_visit rest acc')"

text \<open>The score of an average complexity, \<^verbatim>\<open>int(max(0, 100 - (avg_cc - 5) * (100/15)))\<close>.\<close>

definition cc_score :: "pyfloat \<Rightarrow> int" where
  "cc_score avg_cc = py_int (max0 (fsub 100 (fmul (fsub avg_cc 5) (fdiv 100 15))))"

definition analyze_complexity_python :: "radon option \<Rightarrow> string \<Rightarrow> entry list \<Rightarrow> int" where
  "analyze_complexity_python radon path es =
     (case radon of
        None \<Rightarrow> 50
      | Some cc_visit \<Rightarrow>
          (case cc_walk cc_visit (walk path es) (0, 0) of
             Inl e \<Rightarrow> 50
           | Inr (file_count, total_cc) \<Rightarrow>
               if file_count > 0
               then cc_score (fdiv (of_int total_cc) (of_int file_count))
               else 50))"

subsection \<open>\<^verbatim>\<open>_analyze_sec_deploy\<close>\<close>

definition deploy_files :: "string list" where
  "deploy_files = [''Dockerfile'', ''docker-compose.yml'', ''Procfile'', ''requirements.txt'',
     ''package.json'', ''.vercelignore'', ''netlify.toml'']"

definition deploy_file_score :: "string \<Rightarrow> int" where
  "deploy_file_score file =
     (if file \<in> set deploy_files then 20 else 0)
     + (if file = ''Dockerfile'' then 30 else 0)
     + (if suffix ''.tf'' file then 30 else 0)"

definition analyze_sec_deploy :: "string \<Rightarrow> entry list \<Rightarrow> int \<times> int" where
  "analyze_sec_deploy path es =
     (let sec_score = 80;
          deploy_score =
            sum_list (map (\<lambda>(r, d, files). sum_list (map (\<lambda>f. deploy_file_score (fst f)) files))
                          (walk path es))
      in (min 100 sec_score, min 100 deploy_score))"

subsection \<open>\<^verbatim>\<open>_calculate_composite\<close> and \<^verbatim>\<open>_get_rating_label\<close>\<close>

text \<open>An int that meets a float in an operation is converted to a float first.\<close>

definition float_of_int :: "int \<Rightarrow> pyfloat" where
  "float_of_int i = rnd (of_int i)"

definition calculate_composite :: "breakdown \<Rightarrow> int" where
  "calculate_composite b =
     (let score =
        fadd (fadd (fadd (fadd (fadd (fadd
          (fmul (float_of_int (code_structure b)) (float_lit (25 / 100)))
          (fmul (float_of_int (testing_ci b)) (float_lit (20 / 100))))
          (fmul (float_of_int (readme b)) (float_lit (15 / 100))))
          (fmul (float_of_int (project_value b)) (float_lit (15 / 100))))
          (fmul (float_of_int (deployability b)) (float_lit (10 / 100))))
          (fmul (float_of_int (complexity b)) (float_lit (8 / 100))))
          (fmul (float_of_int (security b)) (float_lit (7 / 100)))
      in py_int score)"

text \<open>Each label of the source starts with a pictograph, kept here as its bytes.\<close>

definition get_rating_label :: "int \<Rightarrow> string" where
  "get_rating_label score =
     (if score \<ge> 85
      then [CHR 0xE2, CHR 0x80, CHR 0x9A, CHR 0xE2, CHR 0x89, CHR 0xA0, CHR 0xC3, CHR 0xAA]
           @ '' Exceptional''
      else if score \<ge> 70
      then [CHR 0xE2, CHR 0x80, CHR 0x9A, CHR 0xC3, CHR 0xBA, CHR 0xC3, CHR 0x96] @ '' Strong''
      else if score \<ge> 55
      then [CHR 0xEF, CHR 0xA3, CHR 0xBF, CHR 0xC3, CHR 0xBC, CHR 0xC3, CHR 0xAC, CHR 0xC3, CHR 0xA0]
           @ '' Solid''
      else if score \<ge> 40
      then [CHR 0xE2, CHR 0x80, CHR 0x9A, CHR 0xC3, CHR 0xB6, CHR 0xE2, CHR 0x80, CHR 0xA0,
            CHR 0xC3, CHR 0x94, CHR 0xE2, CHR 0x88, CHR 0x8F, CHR 0xC3, CHR 0xA8] @ '' Needs Work''
      else [CHR 0xEF, CHR 0xA3, CHR 0xBF, CHR 0xC3, CHR 0xBC, CHR 0xC3, CHR 0xAE, CHR 0xC2, CHR 0xA5]
           @ '' Weak'')"

subsection \<open>\<^verbatim>\<open>analyze_repo\<close>\<close>

definition get_strengths :: "note_dict \<Rightarrow> string list" where
  "get_strengths d = (case d of None \<Rightarrow> [] | Some (st, wk) \<Rightarrow> st)"

definition get_weaknesses :: "note_dict \<Rightarrow> string list" where
  "get_weaknesses d = (case d of None \<Rightarrow> [] | Some (st, wk) \<Rightarrow> wk)"

text \<open>The branch taken when the clone succeeded; \<open>es\<close> is the cloned tree at \<open>repo_path\<close>.\<close>

definition deep_analyze ::
  "llm option \<Rightarrow> radon option \<Rightarrow> string \<Rightarrow> entry list \<Rightarrow> gh_repo \<Rightarrow> analysis \<Rightarrow> py_error + analysis"
where
  "deep_analyze llm radon repo_path es repo a0 =
     (let (struct_score, struct_notes) = analyze_structure repo_path es (gh_language repo);
          a1 = a0\<lparr>score_breakdown := (score_breakdown a0)\<lparr>code_structure := struct_score\<rparr>,
                  strengths := strengths a0 @ get_strengths struct_notes,
                  weaknesses := weaknesses a0 @ get_weaknesses struct_notes\<rparr>
      in case analyze_readme llm es of
           Inl e \<Rightarrow> Inl e
         | Inr (readme_score, readme_notes) \<Rightarrow>
             (let a2 = a1\<lparr>score_breakdown := (score_breakdown a1)\<lparr>readme := readme_score\<rparr>\<rparr>;
                  a3 = (if readme_notes \<noteq> None
                        then a2\<lparr>strengths := strengths a2 @ get_strengths readme_notes,
                                weaknesses := weaknesses a2 @ get_weaknesses readme_notes\<rparr>
                        else a2);
                  a4 = (if readme_score > 70 \<and> readme_notes = None
                        then a3\<lparr>strengths := strengths a3 @ [''Detailed README'']\<rparr>
                        else if readme_score \<le> 40 \<and> readme_notes = None
                        then a3\<lparr>weaknesses := weaknesses a3 @ [''README lacks depth'']\<rparr>
                        else a3);
                  (test_score, test_notes) = analyze_testing repo_path es;
                  a5 = a4\<lparr>score_breakdown := (score_breakdown a4)\<lparr>testing_ci := test_score\<rparr>\<rparr>;
                  a6 = (if test_score > 0
                        then a5\<lparr>strengths := strengths a5 @ [''Testing infrastructure detected'']\<rparr>
                        else a5\<lparr>weaknesses := weaknesses a5 @ [''No tests found'']\<rparr>);
                  comp_score = (if gh_language repo = Some ''Python''
                                then analyze_complexity_python radon repo_path es
                                else 50);
                  a7 = a6\<lparr>score_breakdown := (score_breakdown a6)\<lparr>complexity := comp_score\<rparr>\<rparr>;
                  (sec_score, deploy_score) = analyze_sec_deploy repo_path es
              in Inr (a7\<lparr>score_breakdown :=
                            (score_breakdown a7)\<lparr>security := sec_score,
                                                  deployability := deploy_score\<rparr>\<rparr>)))"

text \<open>
  \<open>cloned\<close> is what \<^verbatim>\<open>clone_repo\<close> leaves at \<^verbatim>\<open>repo_path\<close>: the tree when it returns
  \<^verbatim>\<open>True\<close>, \<open>None\<close> when it returns \<^verbatim>\<open>False\<close>.
\<close>

definition analyze_repo ::
  "llm option \<Rightarrow> radon option \<Rightarrow> string \<Rightarrow> entry list option \<Rightarrow> gh_repo \<Rightarrow> py_error + analysis"
where
  "analyze_repo llm radon temp_dir cloned repo =
     (let a0 = \<lparr>repo_name = name repo, repo_url = html_url repo, language = gh_language repo,
                 stars = stargazers_count repo, forks = forks_count repo,
                 description = gh_description repo, composite_score = 0, rating = ''Unknown'',
                 score_breakdown = \<lparr>code_structure = 0, testing_ci = 0, readme = 0,
                   project_value = 0, deployability = 0, complexity = 0, security = 0\<rparr>,
                 strengths = [], weaknesses = [], critical_flags = [],
                 improvement_suggestions = []\<rparr>;
          pv = min 100 (int (stargazers_count repo) * 2 + int (forks_count repo) * 5);
          a1 = a0\<lparr>score_breakdown := (score_breakdown a0)\<lparr>project_value := pv\<rparr>\<rparr>;
          a2 = (if pv > 50
                then a1\<lparr>strengths := strengths a1 @ [''High community interest (stars/forks)'']\<rparr>
                else a1);
          repo_path = path_join temp_dir (name repo);
          deep = (case cloned of
                    Some es \<Rightarrow> deep_analyze llm radon repo_path es repo a2
                  | None \<Rightarrow>
                      Inr (a2\<lparr>critical_flags := critical_flags a2
                                 @ [''Clone failed - manual inspection required'']\<rparr>))
      in case deep of
           Inl e \<Rightarrow> Inl e
         | Inr a3 \<Rightarrow>
             (let c = calculate_composite (score_breakdown a3)
              in Inr (a3\<lparr>composite_score := c, rating := get_rating_label c\<rparr>)))"

section \<open>The profile calculators (\<^verbatim>\<open>scoring.py\<close>)\<close>

text \<open>Of \<^verbatim>\<open>profile_data\<close> the calculators read the \<^verbatim>\<open>"repositories"\<close> only.\<close>

record profile_data =
  username :: string
  profile_url :: string
  repositories :: "analysis list"

record hiring_readiness =
  score :: int
  tier :: string
  tier_label :: string

subsection \<open>\<^verbatim>\<open>compute_hiring_readiness\<close>\<close>

definition hire_ready :: string where
  "hire_ready = [CHR 0xF0, CHR 0x9F, CHR 0x8F, CHR 0x86] @ '' Hire-Ready''"

definition competitive :: string where
  "competitive = [CHR 0xE2, CHR 0x9C, CHR 0x85] @ '' Competitive''"

definition developing :: string where
  "developing = [CHR 0xF0, CHR 0x9F, CHR 0x93, CHR 0x88] @ '' Developing''"

definition early_stage :: string where
  "early_stage = [CHR 0xE2, CHR 0x9A, CHR 0xA0, CHR 0xEF, CHR 0xB8, CHR 0x8F] @ '' Early Stage''"

definition not_ready :: string where
  "not_ready = [CHR 0xF0, CHR 0x9F, CHR 0x94, CHR 0xB4] @ '' Not Ready''"

definition get_tier_label :: "string \<Rightarrow> string" where
  "get_tier_label t =
     (case map_of
        [(hire_ready, ''Strong candidate; portfolio speaks for itself''),
         (competitive, ''Solid candidate; minor gaps to address''),
         (developing, ''Promising; needs focused improvement in 2-3 areas''),
         (early_stage, ''Real potential; portfolio needs significant work''),
         (not_ready, ''Foundational gaps; focus on fundamentals first'')] t of
        Some l \<Rightarrow> l
      | None \<Rightarrow> [])"

text \<open>A language counts when it is neither \<^verbatim>\<open>None\<close> nor the empty string.\<close>

fun truthy :: "string option \<Rightarrow> bool" where
  "truthy None = False"
| "truthy (Some s) = (s \<noteq> [])"

definition load_languages :: "analysis list \<Rightarrow> string option list" where
  "load_languages repos = remdups (filter truthy (map language repos))"

text \<open>The loop over the critical flags, from the baseline it starts with.\<close>

fun deduct_flags :: "analysis list \<Rightarrow> int \<Rightarrow> int" where
  "deduct_flags [] security_baseline = security_baseline"
| "deduct_flags (r # rs) security_baseline =
     deduct_flags rs (if critical_flags r \<noteq> [] then security_baseline - 20 else security_baseline)"

definition security_baseline :: "analysis list \<Rightarrow> int" where
  "security_baseline repos = max 0 (deduct_flags repos 100)"

definition count_where :: "(analysis \<Rightarrow> bool) \<Rightarrow> analysis list \<Rightarrow> int" where
  "count_where p repos = int (length (filter p repos))"

definition tier_of :: "int \<Rightarrow> string" where
  "tier_of final_score =
     (if final_score \<ge> 85 then hire_ready
      else if final_score \<ge> 70 then competitive
      else if final_score \<ge> 55 then developing
      else if final_score \<ge> 40 then early_stage
      else not_ready)"

definition compute_hiring_readiness :: "profile_data \<Rightarrow> hiring_readiness" where
  "compute_hiring_readiness pd =
     (let repos = repositories pd
      in if repos = []
         then \<lparr>score = 0, tier = not_ready,
               tier_label = ''Foundational gaps; focus on fundamentals first''\<rparr>
         else
           (let repo_scores = map composite_score repos;
                avg_repo_score =
                  (if repo_scores \<noteq> []
                   then fdiv (of_int (sum_list repo_scores)) (of_nat (length repo_scores))
                   else 0);
                best_3 = take 3 (rev (sort repo_scores));
                best_3_repos_avg =
                  (if best_3 \<noteq> []
                   then fdiv (of_int (sum_list best_3)) (of_nat (length best_3))
                   else 0);
                langs = load_languages repos;
                portfolio_diversity = min 100 (int (length langs) * 20);
                testing_ci_presence =
                  fmul (fdiv (of_int (count_where (\<lambda>r. testing_ci (score_breakdown r) > 0) repos))
                             (of_nat (length repos))) 100;
                deployability_presence =
                  fmul (fdiv (of_int (count_where (\<lambda>r. deployability (score_breakdown r) > 0) repos))
                             (of_nat (length repos))) 100;
                sb = security_baseline repos;
                total =
                  fadd (fadd (fadd (fadd (fadd
                    (fmul avg_repo_score (float_lit (35 / 100)))
                    (fmul best_3_repos_avg (float_lit (25 / 100))))
                    (fmul (float_of_int portfolio_diversity) (float_lit (15 / 100))))
                    (fmul testing_ci_presence (float_lit (10 / 100))))
                    (fmul deployability_presence (float_lit (10 / 100))))
                    (fmul (float_of_int sb) (float_lit (5 / 100)));
                final_score = py_int total;
                t = tier_of final_score
            in \<lparr>score = final_score, tier = t, tier_label = get_tier_label t\<rparr>))"

subsection \<open>\<^verbatim>\<open>compute_role_fit\<close> and \<^verbatim>\<open>get_fit_label\<close>\<close>

definition get_fit_label :: "int \<Rightarrow> string" where
  "get_fit_label s =
     (if s > 80 then ''High Fit'' else if s > 50 then ''Moderate Fit'' else ''Low Fit'')"

record role_fit =
  fit_score :: int
  fit_label :: string

text \<open>The dictionary \<^verbatim>\<open>roles\<close>; \<^verbatim>\<open>fit_score\<close> is its key \<^verbatim>\<open>"score"\<close>.\<close>

record role_scores =
  ml_engineer :: role_fit
  backend_engineer :: role_fit
  sre :: role_fit

definition ml_keywords :: "string list" where
  "ml_keywords = [''model'', ''train'', ''dataset'', ''jupyter'', ''pandas'', ''numpy'',
     ''sklearn'', ''tensorflow'', ''pytorch'']"

definition be_keywords :: "string list" where
  "be_keywords = [''api'', ''server'', ''database'', ''sql'', ''rest'', ''graphql'', ''docker'',
     ''auth'']"

definition sre_keywords :: "string list" where
  "sre_keywords = [''kubernetes'', ''docker'', ''terraform'', ''ansible'', ''cloud'', ''aws'',
     ''gcp'', ''azure'', ''monitor'', ''prometheus'']"

definition be_languages :: "string list" where
  "be_languages = [''Python'', ''Go'', ''Java'', ''JavaScript'', ''TypeScript'', ''Rust'']"

text \<open>\<^verbatim>\<open>d.lower()\<close> on a description: \<^verbatim>\<open>None\<close> has no such method.\<close>

fun py_lower :: "string option \<Rightarrow> py_error + string" where
  "py_lower None = Inl AttributeError"
| "py_lower (Some s) = Inr (lower s)"

text \<open>
  \<^verbatim>\<open>any(k in d.lower() for k in keywords if d)\<close>: for each keyword the filter \<^verbatim>\<open>if d\<close> is
  tested first, and only a keyword that passes it has \<^verbatim>\<open>k in d.lower()\<close> evaluated;
  \<^verbatim>\<open>any\<close> stops at the first true value.
\<close>

fun any_keyword :: "string list \<Rightarrow> string option \<Rightarrow> py_error + bool" where
  "any_keyword [] d = Inr False"
| "any_keyword (k # ks) d =
     (if truthy d
      then (case py_lower d of
              Inl e \<Rightarrow> Inl e
            | Inr s \<Rightarrow> if sublist k s then Inr True else any_keyword ks d)
      else any_keyword ks d)"

fun ml_loop :: "analysis list \<Rightarrow> int \<Rightarrow> py_error + int" where
  "ml_loop [] ml_score = Inr ml_score"
| "ml_loop (r # rs) ml_score =
     (let s1 = (if language r = Some ''Jupyter Notebook'' \<or> language r = Some ''Python''
                then ml_score + 10 else ml_score)
      in case any_keyword ml_keywords (description r) of
           Inl e \<Rightarrow> Inl e
         | Inr hit \<Rightarrow> ml_loop rs (if hit then s1 + 15 else s1))"

fun in_languages :: "string option \<Rightarrow> string list \<Rightarrow> bool" where
  "in_languages None ls = False"
| "in_languages (Some l) ls = (l \<in> set ls)"

fun be_loop :: "analysis list \<Rightarrow> pyfloat \<Rightarrow> py_error + pyfloat" where
  "be_loop [] be_score = Inr be_score"
| "be_loop (r # rs) be_score =
     (let s1 = (if in_languages (language r) be_languages then fadd be_score 10 else be_score)
      in case any_keyword be_keywords (description r) of
           Inl e \<Rightarrow> Inl e
         | Inr hit \<Rightarrow>
             (let s2 = (if hit then fadd s1 15 else s1)
              in be_loop rs (fadd s2 (fdiv (of_int (code_structure (score_breakdown r))) 10))))"

fun sre_loop :: "analysis list \<Rightarrow> pyfloat \<Rightarrow> py_error + pyfloat" where
  "sre_loop [] sre_score = Inr sre_score"
| "sre_loop (r # rs) sre_score =
     (case any_keyword sre_keywords (description r) of
        Inl e \<Rightarrow> Inl e
      | Inr hit \<Rightarrow>
          (let s1 = (if hit then fadd sre_score 20 else sre_score)
           in sre_loop rs (fadd s1 (fdiv (of_int (deployability (score_breakdown r))) 2))))"

definition labelled :: "int \<Rightarrow> role_fit" where
  "labelled s = \<lparr>fit_score = s, fit_label = get_fit_label s\<rparr>"

text \<open>The value of the only key, \<^verbatim>\<open>"role_scores"\<close>, of the dictionary returned.\<close>

definition compute_role_fit :: "profile_data \<Rightarrow> py_error + role_scores" where
  "compute_role_fit pd =
     (let roles = \<lparr>ml_engineer = \<lparr>fit_score = 0, fit_label = []\<rparr>,
                    backend_engineer = \<lparr>fit_score = 0, fit_label = []\<rparr>,
                    sre = \<lparr>fit_score = 0, fit_label = []\<rparr>\<rparr>;
          repos = repositories pd
      in if repos = [] then Inr roles
         else
           (case ml_loop repos 0 of
              Inl e \<Rightarrow> Inl e
            | Inr ml_score \<Rightarrow>
                (let roles = roles\<lparr>ml_engineer := labelled (min 100 ml_score)\<rparr>
                 in case be_loop repos 0 of
                      Inl e \<Rightarrow> Inl e
                    | Inr be_score \<Rightarrow>
                        (let roles = roles\<lparr>backend_engineer := labelled (min 100 (py_int be_score))\<rparr>
                         in case sre_loop repos 0 of
                              Inl e \<Rightarrow> Inl e
                            | Inr sre_score \<Rightarrow>
                                Inr (roles\<lparr>sre := labelled (min 100 (py_int sre_score))\<rparr>)))))"

section \<open>Changing a tree\<close>

text \<open>
  \<open>add_dir p d es\<close> puts the entry \<open>d\<close> into the tree \<open>es\<close>: the last number of \<open>p\<close> is
  the position in the listing of the directory that receives \<open>d\<close>, the numbers before it
  are the positions of the sub-directories on the way down to that directory.
\<close>

fun add_dir :: "nat list \<Rightarrow> entry \<Rightarrow> entry list \<Rightarrow> entry list option" where
  "add_dir [] d es = None"
| "add_dir [i] d es = (if i \<le> length es then Some (take i es @ d # drop i es) else None)"
| "add_dir (i # j # p) d es =
     (if i < length es
      then (case es ! i of
              Folder n sub \<Rightarrow>
                (case add_dir (j # p) d sub of
                   Some sub' \<Rightarrow> Some (es[i := Folder n sub'])
                 | None \<Rightarrow> None)
            | File n c \<Rightarrow> None)
      else None)"

text \<open>A walk without a test signal: no directory of a test name, no file name with \<^verbatim>\<open>test\<close> in it.\<close>

fun no_test_signals :: "walk_item list \<Rightarrow> bool" where
  "no_test_signals [] = True"
| "no_test_signals ((rt, dirs, files) # rest) =
     (\<not> has_test_dir dirs \<and> \<not> has_test_file files \<and> no_test_signals rest)"

section \<open>Properties of the label and baseline functions\<close>

text \<open>
  C8. The fit label of a role-fit score \<open>s\<close> is \<^verbatim>\<open>High Fit\<close> exactly when \<open>s > 80\<close>,
  \<^verbatim>\<open>Moderate Fit\<close> exactly when \<open>50 < s \<le> 80\<close>, and \<^verbatim>\<open>Low Fit\<close> otherwise; both bounds
  are strict: 81 is a high fit and 80 a moderate one.
\<close>

theorem get_fit_label_bounds:
  "(get_fit_label s = ''High Fit'') = (s > 80) \<and>
   (get_fit_label s = ''Moderate Fit'') = (50 < s \<and> s \<le> 80) \<and>
   (get_fit_label s = ''Low Fit'') = (s \<le> 50) \<and>
   get_fit_label 81 = ''High Fit'' \<and> get_fit_label 80 = ''Moderate Fit''"
  by (auto simp: get_fit_label_def)

text \<open>The bounds of C8 at the score 51, the least moderate fit.\<close>

theorem get_fit_label_bounds_witness:
  "get_fit_label 51 = ''Moderate Fit'' \<and> get_fit_label 51 \<noteq> ''Low Fit''"
  using get_fit_label_bounds [of 51] by simp

lemma deduct_flags_eq:
  "deduct_flags rs b = b - 20 * int (length (filter (\<lambda>r. critical_flags r \<noteq> []) rs))"
  by (induction rs arbitrary: b) auto

text \<open>
  C7. The security baseline of the hiring readiness is 100 less 20 for each repository
  whose list of critical flags is not empty, and not less than 0. The number of flags of
  a repository plays no part: one repository with three flags loses the 20 points that
  one repository with one flag loses, and flags in two repositories lose 40.
\<close>

theorem security_baseline_per_repository:
  "security_baseline repos =
     max 0 (100 - 20 * int (length (filter (\<lambda>r. critical_flags r \<noteq> []) repos))) \<and>
   security_baseline [r\<lparr>critical_flags := [f1, f2, f3]\<rparr>] = 80 \<and>
   security_baseline [r\<lparr>critical_flags := [f1]\<rparr>] = 80 \<and>
   security_baseline [r\<lparr>critical_flags := [f1]\<rparr>, r'\<lparr>critical_flags := [f2]\<rparr>] = 60"
  by (simp add: security_baseline_def deduct_flags_eq)

section \<open>Properties of the testing score\<close>

lemma test_scan_values: "test_scan 0 items \<in> {0, 20, 40}"
  by (induction items) (auto split: if_splits)

text \<open>
  C4, as the code has it. For every tree the testing score is one of the five values
  0, 20, 40, 60 and 80: the first loop leaves 0, 20 or 40 and the second adds 0 or 40.
\<close>

theorem analyze_testing_values: "fst (analyze_testing path es) \<in> {0, 20, 40, 60, 80}"
  using test_scan_values [of "walk path es"]
  by (auto simp: analyze_testing_def Let_def)

text \<open>
  C4 as stated names four values only. A tree of a file \<^verbatim>\<open>test_app.py\<close> and a file
  \<^verbatim>\<open>.travis.yml\<close> scores 20 for the file name and 40 for the CI marker, 60 in all.
\<close>

theorem analyze_testing_sixty:
  "fst (analyze_testing ''/tmp/t/repo'' [File ''test_app.py'' [], File ''.travis.yml'' []])
     \<notin> {0, 20, 40, 80}"
  by (simp add: analyze_testing_def has_test_dir_def has_test_file_def has_ci_file_def
      config_files_def test_dirs_def lower_def lower_char_def Let_def)

text \<open>The five values of C4 at the tree of the counterexample.\<close>

theorem analyze_testing_values_witness:
  "fst (analyze_testing ''/tmp/t/repo'' [File ''test_app.py'' [], File ''.travis.yml'' []])
     \<in> {0, 20, 40, 60, 80}"
  using analyze_testing_values [of "''/tmp/t/repo''" "[File ''test_app.py'' [], File ''.travis.yml'' []]"]
  by simp

lemma dirnames_append: "dirnames (xs @ ys) = dirnames xs @ dirnames ys"
  by (induction xs rule: dirnames.induct) auto

lemma filelist_append: "filelist (xs @ ys) = filelist xs @ filelist ys"
  by (induction xs rule: filelist.induct) auto

lemma walk_subs_append: "walk_subs rt (xs @ ys) = walk_subs rt xs @ walk_subs rt ys"
  by (induction xs rule: dirnames.induct) auto

lemma no_test_signals_append:
  "no_test_signals (xs @ ys) = (no_test_signals xs \<and> no_test_signals ys)"
  by (induction xs rule: no_test_signals.induct) auto

lemma test_scan_no_signals: "no_test_signals xs \<Longrightarrow> test_scan s xs = s"
  by (induction xs rule: no_test_signals.induct) auto

lemma test_scan_append:
  "test_scan s (xs @ ys) = (if no_test_signals xs then test_scan s ys else test_scan s xs)"
  by (induction xs rule: no_test_signals.induct) auto

lemma ci_scan_append: "ci_scan (xs @ ys) = (ci_scan xs \<or> ci_scan ys)"
  by (induction xs rule: ci_scan.induct) auto

lemma dirnames_upd:
  "i < length es \<Longrightarrow> es ! i = Folder n s \<Longrightarrow> dirnames (es[i := Folder n s']) = dirnames es"
  by (induction es arbitrary: i rule: dirnames.induct) (auto simp: nth_Cons' split: nat.splits if_splits)

lemma filelist_upd:
  "i < length es \<Longrightarrow> es ! i = Folder n s \<Longrightarrow> filelist (es[i := Folder n s']) = filelist es"
  by (induction es arbitrary: i rule: filelist.induct) (auto simp: nth_Cons' split: nat.splits if_splits)

lemma walk_subs_nth:
  assumes "i < length es" and "es ! i = Folder n s"
  shows "walk_subs rt es =
    walk_subs rt (take i es) @ walk (path_join rt n) s @ walk_subs rt (drop (Suc i) es)"
proof -
  have "es = take i es @ Folder n s # drop (Suc i) es"
    using assms by (metis id_take_nth_drop)
  then have "walk_subs rt es = walk_subs rt (take i es @ Folder n s # drop (Suc i) es)"
    by simp
  then show ?thesis
    by (simp add: walk_subs_append del: walk.simps)
qed

lemma walk_subs_upd:
  assumes "i < length es"
  shows "walk_subs rt (es[i := Folder n s']) =
    walk_subs rt (take i es) @ walk (path_join rt n) s' @ walk_subs rt (drop (Suc i) es)"
  using assms by (simp add: upd_conv_take_nth_drop walk_subs_append del: walk.simps)

lemma test_scan_after_add:
  "add_dir p d es = Some es' \<Longrightarrow> d = Folder ''tests'' sub \<Longrightarrow> no_test_signals (walk rt es)
     \<Longrightarrow> test_scan 0 (walk rt es') = 40"
proof (induction p d es arbitrary: es' rt rule: add_dir.induct)
  case (1 d es)
  then show ?case by simp
next
  case (2 i d es)
  then have es': "es' = take i es @ Folder ''tests'' sub # drop i es"
    by (simp split: if_splits)
  have "has_test_dir (dirnames es')"
    by (simp add: es' dirnames_append has_test_dir_def test_dirs_def)
  then show ?case by simp
next
  case (3 i j p d es)
  from "3.prems"(1) obtain n sub0 sub' where
    i: "i < length es" and nth: "es ! i = Folder n sub0"
    and rec: "add_dir (j # p) d sub0 = Some sub'"
    and es': "es' = es[i := Folder n sub']"
    by (auto split: if_splits entry.splits option.splits)
  have head: "\<not> has_test_dir (dirnames es)" "\<not> has_test_file (filelist es)"
    and subs: "no_test_signals (walk_subs rt es)"
    using "3.prems"(3) by auto
  from subs have pre: "no_test_signals (walk_subs rt (take i es))"
    and mid: "no_test_signals (walk (path_join rt n) sub0)"
    by (simp_all add: walk_subs_nth [OF i nth] no_test_signals_append del: walk.simps)
  have forty: "test_scan 0 (walk (path_join rt n) sub') = 40"
    using "3.IH" [OF i nth rec "3.prems"(2) mid] .
  have "\<not> no_test_signals (walk (path_join rt n) sub')"
    using forty test_scan_no_signals [of "walk (path_join rt n) sub'" 0] by auto
  then have "test_scan 0 (walk_subs rt es') = 40"
    using pre forty
    by (simp add: es' walk_subs_upd [OF i] test_scan_append del: walk.simps)
  then show ?case
    using head by (simp add: es' dirnames_upd [OF i nth] filelist_upd [OF i nth])
qed

lemma ci_scan_after_add:
  "add_dir p d es = Some es' \<Longrightarrow> d = Folder m sub \<Longrightarrow> ci_scan (walk rt es)
     \<Longrightarrow> ci_scan (walk rt es')"
proof (induction p d es arbitrary: es' rt rule: add_dir.induct)
  case (1 d es)
  then show ?case by simp
next
  case (2 i d es)
  then have es': "es' = take i es @ Folder m sub # drop i es"
    by (simp split: if_splits)
  have fl: "filelist es' = filelist es"
    by (metis es' filelist_append filelist.simps(3) append_take_drop_id)
  have ws: "walk_subs rt es'
      = walk_subs rt (take i es) @ walk (path_join rt m) sub @ walk_subs rt (drop i es)"
    by (simp add: es' walk_subs_append del: walk.simps)
  have "walk_subs rt es = walk_subs rt (take i es) @ walk_subs rt (drop i es)"
    by (metis walk_subs_append append_take_drop_id)
  then have "ci_scan (walk_subs rt es) \<Longrightarrow> ci_scan (walk_subs rt es')"
    by (auto simp: ws ci_scan_append simp del: walk.simps)
  then show ?case
    using "2.prems"(3) fl by (auto split: if_splits)
next
  case (3 i j p d es)
  from "3.prems"(1) obtain n sub0 sub' where
    i: "i < length es" and nth: "es ! i = Folder n sub0"
    and rec: "add_dir (j # p) d sub0 = Some sub'"
    and es': "es' = es[i := Folder n sub']"
    by (auto split: if_splits entry.splits option.splits)
  have step: "ci_scan (walk (path_join rt n) sub0) \<Longrightarrow> ci_scan (walk (path_join rt n) sub')"
    using "3.IH" [OF i nth rec "3.prems"(2)] .
  have "ci_scan (walk_subs rt es) \<Longrightarrow> ci_scan (walk_subs rt es')"
    using step
    by (auto simp: es' walk_subs_upd [OF i] walk_subs_nth [OF i nth] ci_scan_append
        simp del: walk.simps)
  then show ?case
    using "3.prems"(3)
    by (auto simp: es' dirnames_upd [OF i nth] filelist_upd [OF i nth] split: if_splits)
qed

text \<open>
  C9. In a tree without a test signal, adding a directory named \<^verbatim>\<open>tests\<close>, empty or
  not, anywhere in the tree never lowers the testing score.
\<close>

theorem tests_dir_monotone:
  assumes "no_test_signals (walk path es)"
    and "add_dir p (Folder ''tests'' sub) es = Some es'"
  shows "fst (analyze_testing path es) \<le> fst (analyze_testing path es')"
proof -
  have a: "test_scan 0 (walk path es) = 0"
    using assms(1) by (rule test_scan_no_signals)
  have b: "test_scan 0 (walk path es') = 40"
    using assms(2) refl assms(1) by (rule test_scan_after_add)
  have c: "ci_scan (walk path es) \<Longrightarrow> ci_scan (walk path es')"
    using assms(2) refl by (rule ci_scan_after_add)
  show ?thesis
    using a b c by (auto simp: analyze_testing_def Let_def)
qed

text \<open>C9 at a tree of two files, to whose directory \<^verbatim>\<open>src\<close> an empty \<^verbatim>\<open>tests\<close> is added.\<close>

theorem tests_dir_monotone_witness:
  "no_test_signals (walk ''/tmp/t/repo'' [File ''main.py'' [], Folder ''src'' [File ''app.py'' []]]) \<and>
   add_dir [1, 0] (Folder ''tests'' []) [File ''main.py'' [], Folder ''src'' [File ''app.py'' []]]
     = Some [File ''main.py'' [], Folder ''src'' [Folder ''tests'' [], File ''app.py'' []]] \<and>
   fst (analyze_testing ''/tmp/t/repo'' [File ''main.py'' [], Folder ''src'' [File ''app.py'' []]])
     \<le> fst (analyze_testing ''/tmp/t/repo''
           [File ''main.py'' [], Folder ''src'' [Folder ''tests'' [], File ''app.py'' []]])"
proof -
  have h1: "no_test_signals
      (walk ''/tmp/t/repo'' [File ''main.py'' [], Folder ''src'' [File ''app.py'' []]])"
    by (simp add: has_test_dir_def has_test_file_def test_dirs_def lower_def lower_char_def
        sublist_code)
  have h2: "add_dir [1, 0] (Folder ''tests'' [])
      [File ''main.py'' [], Folder ''src'' [File ''app.py'' []]]
      = Some [File ''main.py'' [], Folder ''src'' [Folder ''tests'' [], File ''app.py'' []]]"
    by simp
  show ?thesis
    using h1 h2 tests_dir_monotone [OF h1 h2] by blast
qed

section \<open>Properties of \<^verbatim>\<open>analyze_repo\<close>\<close>

text \<open>
  C2, as the code has it. When the clone fails, the six sub-scores read from the tree
  (code structure, testing, README, deployability, complexity, security) are 0, the
  project value is \<^verbatim>\<open>min(100, stars*2 + forks*5)\<close>, set before the clone is tried, and
  the critical flags are the one entry \<^verbatim>\<open>Clone failed - manual inspection required\<close>.
\<close>

theorem clone_failure_analysis:
  "map_sum id score_breakdown (analyze_repo llm radon temp_dir None repo) =
     Inr \<lparr>code_structure = 0, testing_ci = 0, readme = 0,
          project_value = min 100 (int (stargazers_count repo) * 2 + int (forks_count repo) * 5),
          deployability = 0, complexity = 0, security = 0\<rparr> \<and>
   map_sum id critical_flags (analyze_repo llm radon temp_dir None repo) =
     Inr [''Clone failed - manual inspection required'']"
  by (simp add: analyze_repo_def Let_def)

text \<open>
  C2 as stated has every sub-score 0. A repository of 30 stars and 10 forks whose clone
  fails has the project value 100.
\<close>

theorem clone_failure_project_value:
  "map_sum id score_breakdown
     (analyze_repo None None ''/tmp/t'' None
        \<lparr>name = ''demo'', html_url = ''https://github.com/u/demo'',
         clone_url = ''https://github.com/u/demo.git'', gh_language = Some ''Python'',
         stargazers_count = 30, forks_count = 10, gh_description = None\<rparr>)
   \<noteq> Inr \<lparr>code_structure = 0, testing_ci = 0, readme = 0, project_value = 0,
           deployability = 0, complexity = 0, security = 0\<rparr>"
  by (simp add: analyze_repo_def Let_def)

text \<open>C2 as the code has it, at the repository of the counterexample.\<close>

theorem clone_failure_analysis_witness:
  "map_sum id score_breakdown
     (analyze_repo None None ''/tmp/t'' None
        \<lparr>name = ''demo'', html_url = ''https://github.com/u/demo'',
         clone_url = ''https://github.com/u/demo.git'', gh_language = Some ''Python'',
         stargazers_count = 30, forks_count = 10, gh_description = None\<rparr>)
   = Inr \<lparr>code_structure = 0, testing_ci = 0, readme = 0, project_value = 100,
          deployability = 0, complexity = 0, security = 0\<rparr>"
  using clone_failure_analysis [of None None "''/tmp/t''"
      "\<lparr>name = ''demo'', html_url = ''https://github.com/u/demo'',
         clone_url = ''https://github.com/u/demo.git'', gh_language = Some ''Python'',
         stargazers_count = 30, forks_count = 10, gh_description = None\<rparr>"]
  by simp

section \<open>Properties of the complexity score\<close>

lemma deep_analyze_complexity:
  assumes "analyze_readme llm es = Inr rd"
  shows "map_sum id (\<lambda>a. complexity (score_breakdown a)) (deep_analyze llm radon p es repo a0)
         = Inr (if gh_language repo = Some ''Python''
                then analyze_complexity_python radon p es else 50)"
  unfolding deep_analyze_def Let_def case_prod_beta assms
  by (cases rd) simp

text \<open>
  After a clone whose README analysis raises nothing, the complexity of the breakdown is
  what \<^verbatim>\<open>_analyze_complexity_python\<close> returns for a Python repository, and 50 for any other.
\<close>

lemma analyze_repo_complexity:
  assumes "analyze_readme llm es = Inr rd"
  shows "map_sum id (\<lambda>a. complexity (score_breakdown a))
           (analyze_repo llm radon temp_dir (Some es) repo)
         = Inr (if gh_language repo = Some ''Python''
                then analyze_complexity_python radon (path_join temp_dir (name repo)) es
                else 50)"
proof -
  obtain a2 where eq: "analyze_repo llm radon temp_dir (Some es) repo =
        (case deep_analyze llm radon (path_join temp_dir (name repo)) es repo a2 of
           Inl e \<Rightarrow> Inl e
         | Inr a3 \<Rightarrow>
             Inr (a3\<lparr>composite_score := calculate_composite (score_breakdown a3),
                      rating := get_rating_label (calculate_composite (score_breakdown a3))\<rparr>))"
    unfolding analyze_repo_def Let_def by simp
  have d: "map_sum id (\<lambda>a. complexity (score_breakdown a))
      (deep_analyze llm radon (path_join temp_dir (name repo)) es repo a2)
      = Inr (if gh_language repo = Some ''Python''
             then analyze_complexity_python radon (path_join temp_dir (name repo)) es else 50)"
    using assms by (rule deep_analyze_complexity)
  show ?thesis
  proof (cases "deep_analyze llm radon (path_join temp_dir (name repo)) es repo a2")
    case (Inl e)
    with d show ?thesis by simp
  next
    case (Inr a3)
    with d show ?thesis by (simp add: eq)
  qed
qed

lemma cc_score_one: "cc_score (fdiv 1 1) = 126"
  by code_simp

lemma complexity_one_function:
  "analyze_complexity_python (Some (\<lambda>content. Inr [1])) p [File ''app.py'' ''def f(): return 1'']
     = 126"
  using cc_score_one by (simp add: analyze_complexity_python_def suffix_to_prefix)

lemma readme_absent:
  "analyze_readme None [File ''app.py'' ''def f(): return 1''] = Inr (0, None)"
  by (simp add: analyze_readme_def lower_def lower_char_def)

text \<open>
  C1 has every sub-score of a breakdown in the interval from 0 to 100, and the comment in
  \<^verbatim>\<open>_analyze_complexity_python\<close> reads \<^verbatim>\<open>Score 100 if avg_cc <= 5\<close>. The formula has no
  upper bound: a Python repository of one file with one function of cyclomatic
  complexity 1 gets the complexity sub-score 126.
\<close>

theorem complexity_above_100:
  "map_sum id (\<lambda>a. complexity (score_breakdown a))
     (analyze_repo None (Some (\<lambda>content. Inr [1])) ''/tmp/t''
        (Some [File ''app.py'' ''def f(): return 1''])
        \<lparr>name = ''demo'', html_url = ''https://github.com/u/demo'',
         clone_url = ''https://github.com/u/demo.git'', gh_language = Some ''Python'',
         stargazers_count = 0, forks_count = 0, gh_description = None\<rparr>) = Inr 126"
  by (simp add: analyze_repo_complexity [OF readme_absent] complexity_one_function)

section \<open>Properties of the role fit\<close>

text \<open>
  C5 has, for an empty repository list, the readiness score 0 of the tier
  \<^verbatim>\<open>Not Ready\<close> and, for each of the three roles, the score 0 with the label
  \<^verbatim>\<open>Low Fit\<close>. The readiness is as stated. \<^verbatim>\<open>compute_role_fit\<close> returns before any label
  is computed, so each role keeps the empty label it was initialised with, where
  \<^verbatim>\<open>get_fit_label\<close> gives the score 0 the label \<^verbatim>\<open>Low Fit\<close>.
\<close>

theorem empty_profile_role_labels:
  "compute_role_fit \<lparr>username = u, profile_url = p, repositories = []\<rparr>
     = Inr \<lparr>ml_engineer = \<lparr>fit_score = 0, fit_label = []\<rparr>,
            backend_engineer = \<lparr>fit_score = 0, fit_label = []\<rparr>,
            sre = \<lparr>fit_score = 0, fit_label = []\<rparr>\<rparr> \<and>
   get_fit_label 0 = ''Low Fit'' \<and>
   compute_hiring_readiness \<lparr>username = u, profile_url = p, repositories = []\<rparr>
     = \<lparr>score = 0, tier = not_ready,
        tier_label = ''Foundational gaps; focus on fundamentals first''\<rparr>"
  by (simp add: compute_role_fit_def compute_hiring_readiness_def get_fit_label_def)

lemma any_keyword_None: "any_keyword ks None = Inr False"
  by (induction ks) auto

lemma any_keyword_total: "\<exists>b. any_keyword ks d = Inr b"
  by (induction ks) (cases d; auto)+

lemma ml_loop_total: "\<exists>s. ml_loop rs acc = Inr s"
proof (induction rs arbitrary: acc)
  case Nil
  then show ?case by simp
next
  case (Cons r rs)
  obtain b where "any_keyword ml_keywords (description r) = Inr b"
    using any_keyword_total by blast
  then show ?case using Cons by (simp add: Let_def)
qed

lemma be_loop_total: "\<exists>s. be_loop rs acc = Inr s"
proof (induction rs arbitrary: acc)
  case Nil
  then show ?case by simp
next
  case (Cons r rs)
  obtain b where "any_keyword be_keywords (description r) = Inr b"
    using any_keyword_total by blast
  then show ?case using Cons by (simp add: Let_def)
qed

lemma sre_loop_total: "\<exists>s. sre_loop rs acc = Inr s"
proof (induction rs arbitrary: acc)
  case Nil
  then show ?case by simp
next
  case (Cons r rs)
  obtain b where "any_keyword sre_keywords (description r) = Inr b"
    using any_keyword_total by blast
  then show ?case using Cons by (simp add: Let_def)
qed

lemma compute_role_fit_total: "\<exists>roles. compute_role_fit pd = Inr roles"
proof -
  obtain m where m: "ml_loop (repositories pd) 0 = Inr m" using ml_loop_total by blast
  obtain b where b: "be_loop (repositories pd) 0 = Inr b" using be_loop_total by blast
  obtain s where s: "sre_loop (repositories pd) 0 = Inr s" using sre_loop_total by blast
  show ?thesis by (simp add: compute_role_fit_def Let_def m b s)
qed

text \<open>
  C10. \<^verbatim>\<open>compute_role_fit\<close> returns a dictionary for every profile, whatever the
  descriptions are. In each of the three loops a repository whose description is
  \<^verbatim>\<open>None\<close> adds no keyword bonus: the ML score moves by the language bonus only, the
  backend score by the language bonus and the tenth of the code structure, the SRE
  score by the half of the deployability.
\<close>

theorem role_fit_null_description:
  "(\<exists>roles. compute_role_fit pd = Inr roles) \<and>
   (description r = None \<longrightarrow>
      ml_loop (r # rs) m =
        ml_loop rs (if language r = Some ''Jupyter Notebook'' \<or> language r = Some ''Python''
                    then m + 10 else m) \<and>
      be_loop (r # rs) b =
        be_loop rs (fadd (if in_languages (language r) be_languages then fadd b 10 else b)
                         (fdiv (of_int (code_structure (score_breakdown r))) 10)) \<and>
      sre_loop (r # rs) s =
        sre_loop rs (fadd s (fdiv (of_int (deployability (score_breakdown r))) 2)))"
  by (simp add: compute_role_fit_total any_keyword_None Let_def)

lemma role_fit_steps:
  "fadd (fadd 0 10) (fdiv 70 10) = 17 \<and> fadd 0 (fdiv 50 2) = 25 \<and>
   py_int 17 = 17 \<and> py_int 25 = 25"
  by code_simp

text \<open>
  C10 at a profile of one Python repository without a description, of code structure 70
  and deployability 50: the scores are 10, 17 and 25.
\<close>

theorem role_fit_null_description_witness:
  "description
     \<lparr>repo_name = ''demo'', repo_url = ''https://github.com/u/demo'', language = Some ''Python'',
      stars = 0, forks = 0, description = None, composite_score = 40, rating = ''Weak'',
      score_breakdown = \<lparr>code_structure = 70, testing_ci = 0, readme = 30, project_value = 0,
         deployability = 50, complexity = 50, security = 80\<rparr>,
      strengths = [], weaknesses = [], critical_flags = [], improvement_suggestions = []\<rparr>
     = None \<and>
   ml_loop
     [\<lparr>repo_name = ''demo'', repo_url = ''https://github.com/u/demo'', language = Some ''Python'',
      stars = 0, forks = 0, description = None, composite_score = 40, rating = ''Weak'',
      score_breakdown = \<lparr>code_structure = 70, testing_ci = 0, readme = 30, project_value = 0,
         deployability = 50, complexity = 50, security = 80\<rparr>,
      strengths = [], weaknesses = [], critical_flags = [], improvement_suggestions = []\<rparr>] 0
     = Inr 10 \<and>
   be_loop
     [\<lparr>repo_name = ''demo'', repo_url = ''https://github.com/u/demo'', language = Some ''Python'',
      stars = 0, forks = 0, description = None, composite_score = 40, rating = ''Weak'',
      score_breakdown = \<lparr>code_structure = 70, testing_ci = 0, readme = 30, project_value = 0,
         deployability = 50, complexity = 50, security = 80\<rparr>,
      strengths = [], weaknesses = [], critical_flags = [], improvement_suggestions = []\<rparr>] 0
     = Inr 17 \<and>
   sre_loop
     [\<lparr>repo_name = ''demo'', repo_url = ''https://github.com/u/demo'', language = Some ''Python'',
      stars = 0, forks = 0, description = None, composite_score = 40, rating = ''Weak'',
      score_breakdown = \<lparr>code_structure = 70, testing_ci = 0, readme = 30, project_value = 0,
         deployability = 50, complexity = 50, security = 80\<rparr>,
      strengths = [], weaknesses = [], critical_flags = [], improvement_suggestions = []\<rparr>] 0
     = Inr 25"
  using role_fit_null_description [of
     "\<lparr>username = ''u'', profile_url = ''https://github.com/u'', repositories = []\<rparr>"
     "\<lparr>repo_name = ''demo'', repo_url = ''https://github.com/u/demo'', language = Some ''Python'',
      stars = 0, forks = 0, description = None, composite_score = 40, rating = ''Weak'',
      score_breakdown = \<lparr>code_structure = 70, testing_ci = 0, readme = 30, project_value = 0,
         deployability = 50, complexity = 50, security = 80\<rparr>,
      strengths = [], weaknesses = [], critical_flags = [], improvement_suggestions = []\<rparr>"
     "[]" 0 0 0]
  by (simp add: role_fit_steps be_languages_def)

end
